theory Spec2Isabelle
  imports Main "HOL-Library.Sublist"
begin

text \<open>
  A model of \<open>gcal.py\<close>, a command-line client of the Google Calendar API with the
  subcommands \<open>add\<close>, \<open>next\<close> and \<open>today\<close>. Each function of the program is a state
  transformer that returns a value or a raised exception; the state holds the token file
  and the trace of what the program printed and called. What the libraries, the file
  system and the network answer is a parameter, the \<open>world\<close>.
\<close>

section \<open>Python values, exceptions and effects\<close>

text \<open>
  Strings are byte strings: a Python \<open>str\<close> is represented by its UTF-8 encoding, so the
  non-ASCII literals of \<open>gcal.py\<close> are spelled out byte by byte.
\<close>

definition sq :: string where
  \<comment> \<open>the single quote character\<close>
  "sq = [CHR 0x27]"

definition esc :: string where
  \<comment> \<open>the escape character written \<open>\033\<close> in the source\<close>
  "esc = [CHR 0x1B]"

definition check_mark :: string where
  \<comment> \<open>U+2705, line 45\<close>
  "check_mark = [CHR 0xE2, CHR 0x9C, CHR 0x85]"

definition next_track :: string where
  \<comment> \<open>U+23ED U+FE0F, line 60\<close>
  "next_track = [CHR 0xE2, CHR 0x8F, CHR 0xAD, CHR 0xEF, CHR 0xB8, CHR 0x8F]"

definition calendar_sign :: string where
  \<comment> \<open>U+1F4C5, line 74\<close>
  "calendar_sign = [CHR 0xF0, CHR 0x9F, CHR 0x93, CHR 0x85]"

definition party_popper :: string where
  \<comment> \<open>U+1F389, line 98\<close>
  "party_popper = [CHR 0xF0, CHR 0x9F, CHR 0x8E, CHR 0x89]"

text \<open>
  A field value of a decoded JSON object, as far as the program looks at it: \<open>None\<close>
  (JSON \<open>null\<close>) or a \<open>str\<close>.
\<close>

datatype pyval = PNone | PStr string

fun py_str :: "pyval \<Rightarrow> string" where
  \<comment> \<open>what an f-string substitutes for \<open>{v}\<close>\<close>
  "py_str PNone = ''None''"
| "py_str (PStr s) = s"

fun truthy :: "pyval \<Rightarrow> bool" where
  "truthy PNone = False"
| "truthy (PStr s) = (s \<noteq> [])"

datatype exc_class = KeyError | AttributeError | TypeError | ValueError | OtherError string

text \<open>
  A raised exception. \<open>Exception cls msg\<close> is an instance of a subclass of Python's
  \<open>Exception\<close> whose \<open>str()\<close> is \<open>msg\<close>; \<open>KeyboardInterrupt\<close> and \<open>SystemExit\<close> derive from
  \<open>BaseException\<close> only, so \<open>except Exception\<close> does not catch them.
\<close>

datatype exn = Exception exc_class string | KeyboardInterrupt | SystemExit int

definition key_error :: "string \<Rightarrow> exn" where
  \<comment> \<open>\<open>str(KeyError('k'))\<close> is the \<open>repr\<close> of the key\<close>
  "key_error k = Exception KeyError (sq @ k @ sq)"

text \<open>The Calendar API's event resource, with every key the program reads optional.\<close>

record start_dict =
  dateTime :: "pyval option"
  date :: "pyval option"

record event =
  summary :: "pyval option"
  start :: "start_dict option"
  htmlLink :: "pyval option"

record list_request =
  calendarId :: string
  timeMin :: string
  maxResults :: nat
  singleEvents :: bool
  orderBy :: string

record list_response =
  items :: "event list option"

text \<open>
  The object returned by \<open>build('calendar', 'v3', ...)\<close>: what executing each of the two
  requests the program makes yields, a result or a raised exception.
\<close>

record service =
  quickAdd :: "string \<Rightarrow> string \<Rightarrow> exn + event"
  events_list :: "list_request \<Rightarrow> exn + list_response"

text \<open>
  A \<open>google.oauth2.credentials.Credentials\<close> object, by what the program reads of it: the
  access token, whether the library finds it expired at the time of the run, the refresh
  token, and the text \<open>to_json()\<close> gives.
\<close>

record credentials =
  token :: pyval
  expired :: bool
  refresh_token :: pyval
  to_json :: string

definition valid :: "credentials \<Rightarrow> bool" where
  \<comment> \<open>the library's property \<open>valid\<close>: there is an access token and it is not expired\<close>
  "valid c = (token c \<noteq> PNone \<and> \<not> expired c)"

record namespace =
  command :: string
  text_arg :: "string list"

record datetime =
  year :: nat
  month :: nat
  day :: nat
  hour :: nat
  minute :: nat
  second :: nat
  utcoffset :: "int option"

text \<open>
  Everything outside \<open>gcal.py\<close>: the outcome of each library, operating-system and network
  call the program makes. \<open>fromisoformat\<close> is \<open>datetime.datetime.fromisoformat\<close> on a \<open>str\<close>,
  with \<open>None\<close> for a raised \<open>ValueError\<close>.
\<close>

record world =
  parse_args :: "exn + namespace"
  from_authorized_user_file :: "string \<Rightarrow> exn + credentials"
  refresh :: "credentials \<Rightarrow> exn + credentials"
  from_client_secrets_file :: "exn option"
  run_local_server :: "exn + credentials"
  open_token_w :: "exn option"
  build :: "credentials \<Rightarrow> exn + service"
  utc_now_isoformat :: string
  now_isoformat :: string
  today_line74 :: string
  today_line87 :: string
  fromisoformat :: "string \<Rightarrow> datetime option"

datatype effect =
    Print string
  | TokenRead
  | TokenRefresh
  | ClientSecretsRead
  | LocalServerFlow
  | TokenWrite string
  | Build
  | QuickAddRequest string string
  | ListRequest list_request

record state =
  token_file :: "string option"
  trace :: "effect list"

type_synonym ('s, 'a) prog = "'s \<Rightarrow> (exn + 'a) \<times> 's"

definition py_return :: "'a \<Rightarrow> ('s, 'a) prog" where
  "py_return x = (\<lambda>s. (Inr x, s))"

definition py_bind :: "('s, 'a) prog \<Rightarrow> ('a \<Rightarrow> ('s, 'b) prog) \<Rightarrow> ('s, 'b) prog" where
  "py_bind m f = (\<lambda>s. case m s of (Inl e, s') \<Rightarrow> (Inl e, s') | (Inr x, s') \<Rightarrow> f x s')"

definition lift :: "exn + 'a \<Rightarrow> ('s, 'a) prog" where
  \<comment> \<open>an expression that returns or raises without touching the state\<close>
  "lift r = (\<lambda>s. (r, s))"

definition call :: "effect \<Rightarrow> exn + 'a \<Rightarrow> (state, 'a) prog" where
  \<comment> \<open>an external call: it is recorded, then returns or raises as the world decides\<close>
  "call eff outcome = (\<lambda>s. (outcome, s\<lparr>trace := trace s @ [eff]\<rparr>))"

definition py_print :: "string \<Rightarrow> (state, unit) prog" where
  "py_print line = call (Print line) (Inr ())"

section \<open>Library functions the program calls\<close>

fun startswith :: "string \<Rightarrow> string \<Rightarrow> bool" where
  "startswith s [] = True"
| "startswith [] (c # p) = False"
| "startswith (a # s) (c # p) = (a = c \<and> startswith s p)"

fun py_join :: "string \<Rightarrow> string list \<Rightarrow> string" where
  "py_join sep [] = []"
| "py_join sep [x] = x"
| "py_join sep (x # y # ys) = x @ sep @ py_join sep (y # ys)"

definition digit_char :: "nat \<Rightarrow> char" where
  "digit_char n = ''0123456789'' ! n"

definition pad2 :: "nat \<Rightarrow> string" where
  \<comment> \<open>a two-digit, zero-padded decimal\<close>
  "pad2 n = [digit_char (n div 10 mod 10), digit_char (n mod 10)]"

definition strftime_I_M_p :: "datetime \<Rightarrow> string" where
  \<comment> \<open>\<open>dt.strftime("%I:%M %p")\<close> in the C locale\<close>
  "strftime_I_M_p dt =
     pad2 (if hour dt mod 12 = 0 then 12 else hour dt mod 12) @ '':'' @ pad2 (minute dt)
       @ '' '' @ (if hour dt < 12 then ''AM'' else ''PM'')"

text \<open>
  A reference behaviour for \<open>datetime.datetime.fromisoformat\<close> (CPython 3.11, the first
  version with the \<open>datetime.UTC\<close> of line 50) on the RFC 3339 strings the Calendar API sends: \<open>YYYY-MM-DD\<close>, optionally
  followed by one ASCII separator character, \<open>HH:MM:SS\<close> and then \<open>Z\<close> or \<open>+HH:MM\<close> or
  \<open>-HH:MM\<close>. On these strings it returns what CPython returns, a date alone giving
  midnight. CPython accepts further ISO 8601 spellings (fractional seconds, times without
  seconds, offsets without a colon, dates without hyphens, week dates), which this function
  rejects: a world built with it shows such a start as \<open>All Day\<close>. It is used only to build
  concrete worlds, on strings of the form above, and no general statement below depends on
  it.
\<close>

definition is_ascii_digit :: "char \<Rightarrow> bool" where
  "is_ascii_digit c = (c \<in> set ''0123456789'')"

definition digit_val :: "char \<Rightarrow> nat" where
  "digit_val c = of_char c - 48"

definition parse_digits :: "string \<Rightarrow> nat option" where
  "parse_digits s =
     (if s \<noteq> [] \<and> list_all is_ascii_digit s
      then Some (foldl (\<lambda>n c. 10 * n + digit_val c) 0 s) else None)"

definition is_leap :: "nat \<Rightarrow> bool" where
  "is_leap y = (y mod 4 = 0 \<and> (if y mod 100 = 0 then y mod 400 = 0 else True))"

definition days_in_month :: "nat \<Rightarrow> nat \<Rightarrow> nat" where
  "days_in_month y m =
     (if m = 2 then (if is_leap y then 29 else 28)
      else if m = 4 \<or> m = 6 \<or> m = 9 \<or> m = 11 then 30 else 31)"

definition parse_date :: "string \<Rightarrow> (nat \<times> nat \<times> nat) option" where
  "parse_date s =
     (if length s = 10 \<and> s ! 4 = CHR ''-'' \<and> s ! 7 = CHR ''-'' then
        (case (parse_digits (take 4 s), parse_digits (take 2 (drop 5 s)),
               parse_digits (drop 8 s)) of
           (Some y, Some m, Some d) \<Rightarrow>
             if 1 \<le> y \<and> 1 \<le> m \<and> m \<le> 12 \<and> 1 \<le> d \<and> d \<le> days_in_month y m
             then Some (y, m, d) else None
         | _ \<Rightarrow> None)
      else None)"

definition parse_hms :: "string \<Rightarrow> (nat \<times> nat \<times> nat) option" where
  "parse_hms s =
     (if length s = 8 \<and> s ! 2 = CHR '':'' \<and> s ! 5 = CHR '':'' then
        (case (parse_digits (take 2 s), parse_digits (take 2 (drop 3 s)),
               parse_digits (drop 6 s)) of
           (Some h, Some m, Some x) \<Rightarrow>
             if h \<le> 23 \<and> m \<le> 59 \<and> x \<le> 59 then Some (h, m, x) else None
         | _ \<Rightarrow> None)
      else None)"

definition parse_offset :: "string \<Rightarrow> int option option" where
  \<comment> \<open>\<open>None\<close>: malformed; \<open>Some None\<close>: no offset; \<open>Some (Some n)\<close>: \<open>n\<close> seconds east of UTC\<close>
  "parse_offset s =
     (if s = [] then Some None
      else if s = ''Z'' then Some (Some 0)
      else if length s = 6 \<and> (s ! 0 = CHR ''+'' \<or> s ! 0 = CHR ''-'') \<and> s ! 3 = CHR '':'' then
        (case (parse_digits (take 2 (drop 1 s)), parse_digits (drop 4 s)) of
           (Some h, Some m) \<Rightarrow>
             if h * 3600 + m * 60 < 86400
             then Some (Some (if s ! 0 = CHR ''-'' then - int (h * 3600 + m * 60)
                               else int (h * 3600 + m * 60)))
             else None
         | _ \<Rightarrow> None)
      else None)"

definition fromisoformat_rfc3339 :: "string \<Rightarrow> datetime option" where
  "fromisoformat_rfc3339 s =
     (case parse_date (take 10 s) of
        None \<Rightarrow> None
      | Some (y, m, d) \<Rightarrow>
          if length s = 10
          then Some \<lparr>year = y, month = m, day = d, hour = 0, minute = 0, second = 0,
                      utcoffset = None\<rparr>
          else if (of_char (s ! 10) :: nat) < 128 then
            (case (parse_hms (take 8 (drop 11 s)), parse_offset (drop 19 s)) of
               (Some (h, mi, x), Some off) \<Rightarrow>
                 Some \<lparr>year = y, month = m, day = d, hour = h, minute = mi, second = x,
                        utcoffset = off\<rparr>
             | _ \<Rightarrow> None)
          else None)"

section \<open>The presenter, lines 100 to 112\<close>

definition start_value :: "event \<Rightarrow> exn + pyval" where
  \<comment> \<open>\<open>event['start'].get('dateTime', event['start'].get('date'))\<close>, lines 91 and 101\<close>
  "start_value ev =
     (case start ev of
        None \<Rightarrow> Inl (key_error ''start'')
      | Some d \<Rightarrow>
          (case dateTime d of
             Some v \<Rightarrow> Inr v
           | None \<Rightarrow> (case date d of Some v \<Rightarrow> Inr v | None \<Rightarrow> Inr PNone)))"

definition time_str :: "world \<Rightarrow> pyval \<Rightarrow> exn + string" where
  \<comment> \<open>lines 105 to 109: only \<open>ValueError\<close> is caught\<close>
  "time_str w v =
     (case v of
        PNone \<Rightarrow> Inl (Exception TypeError ''fromisoformat: argument must be str'')
      | PStr s \<Rightarrow>
          (case fromisoformat w s of
             Some dt \<Rightarrow> Inr (strftime_I_M_p dt)
           | None \<Rightarrow> Inr ''All Day''))"

definition print_event :: "world \<Rightarrow> event \<Rightarrow> string \<Rightarrow> (state, unit) prog" where
  "print_event w ev pfx =
     py_bind (lift (start_value ev)) (\<lambda>start_v.
     py_bind (lift (case summary ev of None \<Rightarrow> Inl (key_error ''summary'') | Some v \<Rightarrow> Inr v))
       (\<lambda>summary_v.
     py_bind (lift (time_str w start_v)) (\<lambda>t.
     py_print (pfx @ esc @ ''[96m['' @ t @ '']'' @ esc @ ''[0m '' @ py_str summary_v))))"

section \<open>The three commands, lines 35 to 98\<close>

definition cmd_add :: "service \<Rightarrow> namespace \<Rightarrow> (state, unit) prog" where
  "cmd_add svc args =
     (let text = py_join '' '' (text_arg args) in
      py_bind (py_print (''Adding: '' @ sq @ text @ sq @ ''...'')) (\<lambda>_.
      py_bind (call (QuickAddRequest ''primary'' text) (quickAdd svc ''primary'' text)) (\<lambda>ev.
      py_bind (py_print (check_mark @ '' Created event: ''
                 @ py_str (case summary ev of None \<Rightarrow> PNone | Some v \<Rightarrow> v))) (\<lambda>_.
      py_print (''   Link: '' @ py_str (case htmlLink ev of None \<Rightarrow> PNone | Some v \<Rightarrow> v))))))"

definition get_items :: "list_response \<Rightarrow> event list" where
  \<comment> \<open>\<open>events_result.get('items', [])\<close>\<close>
  "get_items r = (case items r of None \<Rightarrow> [] | Some evs \<Rightarrow> evs)"

definition list_today_request :: "world \<Rightarrow> list_request" where
  \<comment> \<open>the arguments of lines 77 to 80, with \<open>now_iso\<close> of line 68\<close>
  "list_today_request w =
     \<lparr>calendarId = ''primary'', timeMin = now_isoformat w @ ''Z'', maxResults = 20,
      singleEvents = True, orderBy = ''startTime''\<rparr>"

definition list_next_request :: "world \<Rightarrow> list_request" where
  \<comment> \<open>the arguments of lines 51 to 54, with \<open>now\<close> of line 50\<close>
  "list_next_request w =
     \<lparr>calendarId = ''primary'', timeMin = utc_now_isoformat w, maxResults = 1,
      singleEvents = True, orderBy = ''startTime''\<rparr>"

definition cmd_next :: "world \<Rightarrow> service \<Rightarrow> namespace \<Rightarrow> (state, unit) prog" where
  "cmd_next w svc args =
     py_bind (call (ListRequest (list_next_request w)) (events_list svc (list_next_request w)))
       (\<lambda>events_result.
     (case get_items events_result of
        [] \<Rightarrow> py_print ''No upcoming events found.''
      | ev # rest \<Rightarrow> print_event w ev (next_track @ ''  NEXT: '')))"

definition starts_today :: "string \<Rightarrow> event \<Rightarrow> exn + bool" where
  \<comment> \<open>lines 91 and 93: \<open>start.startswith(today_str)\<close>; \<open>None\<close> has no such method\<close>
  "starts_today today_str ev =
     (case start_value ev of
        Inl e \<Rightarrow> Inl e
      | Inr PNone \<Rightarrow>
          Inl (Exception AttributeError
                 (sq @ ''NoneType'' @ sq @ '' object has no attribute '' @ sq @ ''startswith'' @ sq))
      | Inr (PStr s) \<Rightarrow> Inr (startswith s today_str))"

text \<open>
  The loop of lines 89 to 95, with the call of line 94 as the parameter \<open>present\<close>;
  \<open>cmd_today\<close> passes \<open>print_event\<close>.
\<close>

fun today_loop ::
  "(event \<Rightarrow> ('s, unit) prog) \<Rightarrow> string \<Rightarrow> event list \<Rightarrow> nat \<Rightarrow> ('s, nat) prog" where
  "today_loop present today_str [] count s = (Inr count, s)"
| "today_loop present today_str (ev # events) count s =
     (case starts_today today_str ev of
        Inl e \<Rightarrow> (Inl e, s)
      | Inr True \<Rightarrow>
          (case present ev s of
             (Inl e, s') \<Rightarrow> (Inl e, s')
           | (Inr u, s') \<Rightarrow> today_loop present today_str events (count + 1) s')
      | Inr False \<Rightarrow> today_loop present today_str events count s)"

text \<open>
  \<open>cmd_today\<close>: the clock is read on lines 64, 74 and 87 (\<open>end_of_day\<close> of line 66 is never
  used); an empty list is answered on lines 83 to 85 before the loop.
\<close>

definition cmd_today :: "world \<Rightarrow> service \<Rightarrow> namespace \<Rightarrow> (state, unit) prog" where
  "cmd_today w svc args =
     py_bind (py_print (calendar_sign @ '' Agenda for Today ('' @ today_line74 w @ ''):'')) (\<lambda>_.
     py_bind (py_print (replicate 40 CHR ''-'')) (\<lambda>_.
     py_bind (call (ListRequest (list_today_request w)) (events_list svc (list_today_request w)))
       (\<lambda>events_result.
     (case get_items events_result of
        [] \<Rightarrow> py_print ''No events found.''
      | ev # rest \<Rightarrow>
          py_bind (today_loop (\<lambda>e. print_event w e []) (today_line87 w) (ev # rest) 0) (\<lambda>count.
          if count = 0 then py_print (''Nothing left for today! '' @ party_popper)
          else py_return ())))))"

section \<open>Credentials, lines 14 to 33\<close>

definition interactive_flow :: "world \<Rightarrow> (state, credentials) prog" where
  \<comment> \<open>lines 28 and 29\<close>
  "interactive_flow w =
     py_bind (call ClientSecretsRead
                (case from_client_secrets_file w of Some e \<Rightarrow> Inl e | None \<Rightarrow> Inr ())) (\<lambda>_.
     call LocalServerFlow (run_local_server w))"

definition write_token :: "world \<Rightarrow> credentials \<Rightarrow> (state, unit) prog" where
  \<comment> \<open>lines 30 and 31\<close>
  "write_token w creds =
     (\<lambda>s. case open_token_w w of
             Some e \<Rightarrow> (Inl e, s)
           | None \<Rightarrow> (Inr (), s\<lparr>token_file := Some (to_json creds),
                                 trace := trace s @ [TokenWrite (to_json creds)]\<rparr>))"

text \<open>
  \<open>get_service\<close>: the token file is read when it exists (lines 21 and 22). Credentials that
  were loaded and are valid go straight to \<open>build\<close>. Otherwise (line 24: none loaded, or not
  valid) loaded credentials that are expired and hold a refresh token are refreshed (lines
  25 and 26), anything else goes through the interactive flow (lines 28 and 29), and the
  result is written to the token file (lines 30 and 31). An exception of any step leaves
  the function at once: there is no handler in it.
\<close>

definition get_service :: "world \<Rightarrow> (state, service) prog" where
  "get_service w =
     py_bind (\<lambda>s. case token_file s of
                     None \<Rightarrow> (Inr None, s)
                   | Some content \<Rightarrow>
                       py_bind (call TokenRead (from_authorized_user_file w content))
                         (\<lambda>c. py_return (Some c)) s) (\<lambda>creds.
     py_bind (case creds of
                Some c \<Rightarrow>
                  if valid c then py_return c
                  else py_bind (if expired c \<and> truthy (refresh_token c)
                                then call TokenRefresh (refresh w c)
                                else interactive_flow w) (\<lambda>c'.
                       py_bind (write_token w c') (\<lambda>_. py_return c'))
              | None \<Rightarrow>
                  py_bind (interactive_flow w) (\<lambda>c'.
                  py_bind (write_token w c') (\<lambda>_. py_return c'))) (\<lambda>creds'.
     call Build (build w creds')))"

section \<open>Dispatch, lines 114 to 139\<close>

definition main_try :: "world \<Rightarrow> namespace \<Rightarrow> (state, unit) prog" where
  \<comment> \<open>the body of the \<open>try\<close>, lines 131 to 137\<close>
  "main_try w args =
     py_bind (get_service w) (\<lambda>svc.
       if command args = ''add'' then cmd_add svc args
       else if command args = ''next'' then cmd_next w svc args
       else if command args = ''today'' then cmd_today w svc args
       else py_return ())"

definition main :: "world \<Rightarrow> (state, unit) prog" where
  \<comment> \<open>\<open>parse_args\<close> (line 128) runs before the \<open>try\<close>; line 138 catches \<open>Exception\<close> only\<close>
  "main w =
     (\<lambda>s. case parse_args w of
             Inl e \<Rightarrow> (Inl e, s)
           | Inr args \<Rightarrow>
               (case main_try w args s of
                  (Inl (Exception cls msg), s') \<Rightarrow> py_print (''Error: '' @ msg) s'
                | (Inl e, s') \<Rightarrow> (Inl e, s')
                | (Inr u, s') \<Rightarrow> (Inr u, s')))"

section \<open>The events the today loop selects\<close>

definition record_event :: "event \<Rightarrow> (event list, unit) prog" where
  \<comment> \<open>a presenter that only notes which event it was handed\<close>
  "record_event ev = (\<lambda>seen. (Inr (), seen @ [ev]))"

definition today_filter :: "string \<Rightarrow> event list \<Rightarrow> event list" where
  \<comment> \<open>the events the loop of lines 90 to 95 hands to line 94, in the order it does so\<close>
  "today_filter today_str events = snd (today_loop record_event today_str events 0 [])"

fun present_all :: "(event \<Rightarrow> ('s, unit) prog) \<Rightarrow> event list \<Rightarrow> nat \<Rightarrow> ('s, nat) prog" where
  \<comment> \<open>present each event in turn, counting, until one raises\<close>
  "present_all present [] count s = (Inr count, s)"
| "present_all present (ev # events) count s =
     (case present ev s of
        (Inl e, s') \<Rightarrow> (Inl e, s')
      | (Inr u, s') \<Rightarrow> present_all present events (count + 1) s')"

definition joined_by_single_spaces :: "string list \<Rightarrow> string" where
  \<comment> \<open>in the words of the specification: the first token, then every further token after
      one space\<close>
  "joined_by_single_spaces tokens =
     (case tokens of [] \<Rightarrow> [] | t # ts \<Rightarrow> t @ concat (map (\<lambda>u. CHR '' '' # u) ts))"

text \<open>
  The start value in the words of the specification, read off the event itself and not
  through \<open>start_value\<close>: the \<open>dateTime\<close> field if present, otherwise the \<open>date\<close> field.
\<close>

definition start_field :: "event \<Rightarrow> pyval option" where
  "start_field ev =
     (case start ev of
        None \<Rightarrow> None
      | Some d \<Rightarrow> (if dateTime d = None then date d else dateTime d))"

definition has_start_text :: "event \<Rightarrow> bool" where
  \<comment> \<open>the start value exists and is a string\<close>
  "has_start_text ev = (case start_field ev of Some (PStr s) \<Rightarrow> True | _ \<Rightarrow> False)"

definition start_text :: "event \<Rightarrow> string" where
  "start_text ev = (case start_field ev of Some (PStr s) \<Rightarrow> s | _ \<Rightarrow> [])"

section \<open>Concrete events, services and worlds\<close>

definition timed_event :: "string \<Rightarrow> string \<Rightarrow> event" where
  "timed_event title t =
     \<lparr>summary = Some (PStr title), start = Some \<lparr>dateTime = Some (PStr t), date = None\<rparr>,
      htmlLink = None\<rparr>"

definition all_day_event :: "string \<Rightarrow> string \<Rightarrow> event" where
  "all_day_event title d =
     \<lparr>summary = Some (PStr title), start = Some \<lparr>dateTime = None, date = Some (PStr d)\<rparr>,
      htmlLink = None\<rparr>"

definition timed_dated_event :: "string \<Rightarrow> string \<Rightarrow> string \<Rightarrow> event" where
  \<comment> \<open>an event whose \<open>start\<close> carries both fields\<close>
  "timed_dated_event title t d =
     \<lparr>summary = Some (PStr title), start = Some \<lparr>dateTime = Some (PStr t), date = Some (PStr d)\<rparr>,
      htmlLink = None\<rparr>"

definition untitled_event :: "string \<Rightarrow> event" where
  \<comment> \<open>an event created without a title: the API omits \<open>summary\<close>\<close>
  "untitled_event t =
     \<lparr>summary = None, start = Some \<lparr>dateTime = Some (PStr t), date = None\<rparr>, htmlLink = None\<rparr>"

definition created_event :: "string \<Rightarrow> event" where
  "created_event title =
     \<lparr>summary = Some (PStr title),
      start = Some \<lparr>dateTime = Some (PStr ''2024-01-01T19:00:00''), date = None\<rparr>,
      htmlLink = Some (PStr ''https://www.google.com/calendar/event?eid=abc'')\<rparr>"

definition example_service :: "event list \<Rightarrow> service" where
  "example_service evs =
     \<lparr>quickAdd = (\<lambda>cal txt. Inr (created_event txt)),
      events_list = (\<lambda>req. Inr \<lparr>items = Some evs\<rparr>)\<rparr>"

definition dq :: string where
  \<comment> \<open>the double quote character\<close>
  "dq = [CHR 0x22]"

definition json_string :: "string \<Rightarrow> string" where
  "json_string v = dq @ v @ dq"

fun json_members :: "(string \<times> string) list \<Rightarrow> string" where
  "json_members [] = []"
| "json_members [(k, v)] = json_string k @ '': '' @ v"
| "json_members ((k, v) # m # ms) = json_string k @ '': '' @ v @ '', '' @ json_members (m # ms)"

definition token_json :: "string option \<Rightarrow> string option \<Rightarrow> string" where
  \<comment> \<open>a \<open>token.json\<close> as \<open>to_json()\<close> writes it, with or without the access token and the
      expiry\<close>
  "token_json tok expiry =
     ''{'' @ json_members
       ((case tok of None \<Rightarrow> [] | Some t \<Rightarrow> [(''token'', json_string t)]) @
        [(''refresh_token'', json_string ''1//0gLs''),
         (''token_uri'', json_string ''https://oauth2.googleapis.com/token''),
         (''client_id'', json_string ''1234.apps.googleusercontent.com''),
         (''client_secret'', json_string ''GOCSPX-abcd''),
         (''scopes'', ''['' @ json_string ''https://www.googleapis.com/auth/calendar'' @ '']''),
         (''universe_domain'', json_string ''googleapis.com''),
         (''account'', json_string [])] @
        (case expiry of None \<Rightarrow> [] | Some e \<Rightarrow> [(''expiry'', json_string e)])) @ ''}''"

definition example_token_json :: string where
  \<comment> \<open>a token file that expires half an hour after the clock of \<open>example_world\<close>\<close>
  "example_token_json = token_json (Some ''ya29.a0'') (Some ''2024-01-01T08:30:00.000000Z'')"

definition expiry_free_token_json :: string where
  \<comment> \<open>the same token file without the \<open>expiry\<close> key\<close>
  "expiry_free_token_json = token_json (Some ''ya29.a0'') None"

definition refreshed_token_json :: string where
  \<comment> \<open>what is written after a refresh at the clock of \<open>example_world\<close>\<close>
  "refreshed_token_json = token_json (Some ''ya29.a1'') (Some ''2024-01-01T08:59:59.000000Z'')"

definition example_credentials :: credentials where
  "example_credentials =
     \<lparr>token = PStr ''ya29.a0'', expired = False, refresh_token = PStr ''1//0gLs'',
      to_json = example_token_json\<rparr>"

definition refreshed_credentials :: credentials where
  "refreshed_credentials =
     \<lparr>token = PStr ''ya29.a1'', expired = False, refresh_token = PStr ''1//0gLs'',
      to_json = refreshed_token_json\<rparr>"

definition stale_credentials :: credentials where
  \<comment> \<open>the credentials loaded from the file without \<open>expiry\<close>\<close>
  "stale_credentials =
     \<lparr>token = PStr ''ya29.a0'', expired = True, refresh_token = PStr ''1//0gLs'',
      to_json = token_json (Some ''ya29.a0'') (Some ''2024-01-01T07:56:15.000001Z'')\<rparr>"

definition json_decode_error :: exn where
  \<comment> \<open>what \<open>json.load\<close> raises on text that is not JSON, a subclass of \<open>ValueError\<close>\<close>
  "json_decode_error =
     Exception (OtherError ''JSONDecodeError'') ''Expecting value: line 1 column 1 (char 0)''"

text \<open>
  What \<open>Credentials.from_authorized_user_file\<close> answers on the token files of this theory.
  A file without \<open>expiry\<close> is loaded as expired: \<open>from_authorized_user_info\<close> then sets the
  expiry to the current time less the refresh threshold. Text that is none of these files
  is answered as text that is not JSON.
\<close>

definition example_loader :: "string \<Rightarrow> exn + credentials" where
  "example_loader content =
     (if content = example_token_json then Inr example_credentials
      else if content = expiry_free_token_json then Inr stale_credentials
      else Inl json_decode_error)"

definition example_world :: "namespace \<Rightarrow> event list \<Rightarrow> world" where
  "example_world args evs =
     \<lparr>parse_args = Inr args,
      from_authorized_user_file = example_loader,
      refresh = (\<lambda>c. Inr refreshed_credentials),
      from_client_secrets_file = None,
      run_local_server = Inr example_credentials,
      open_token_w = None,
      build = (\<lambda>c. Inr (example_service evs)),
      utc_now_isoformat = ''2024-01-01T08:00:00.000001+00:00'',
      now_isoformat = ''2024-01-01T08:00:00.000001'',
      today_line74 = ''2024-01-01'',
      today_line87 = ''2024-01-01'',
      fromisoformat = fromisoformat_rfc3339\<rparr>"

definition fresh_state :: state where
  \<comment> \<open>no token file, nothing done yet\<close>
  "fresh_state = \<lparr>token_file = None, trace = []\<rparr>"

definition today_args :: namespace where
  "today_args = \<lparr>command = ''today'', text_arg = []\<rparr>"

definition next_args :: namespace where
  "next_args = \<lparr>command = ''next'', text_arg = []\<rparr>"

definition add_args :: "string list \<Rightarrow> namespace" where
  "add_args tokens = \<lparr>command = ''add'', text_arg = tokens\<rparr>"

definition stored_token_state :: "string \<Rightarrow> state" where
  \<comment> \<open>\<open>token.json\<close> holds the given text, nothing done yet\<close>
  "stored_token_state content = \<lparr>token_file = Some content, trace = []\<rparr>"

definition corrupt_token_world :: world where
  \<comment> \<open>a run of \<open>today\<close> whose \<open>Credentials.from_authorized_user_file\<close> cannot decode
      \<open>not json\<close>\<close>
  "corrupt_token_world = example_world today_args []"

definition usage_error_world :: world where
  \<comment> \<open>the tool run without a subcommand: \<open>argparse\<close> reports usage and raises \<open>SystemExit(2)\<close>\<close>
  "usage_error_world = (example_world today_args [])\<lparr>parse_args := Inl (SystemExit 2)\<rparr>"

section \<open>Evaluation rules\<close>

lemmas prog_defs = py_bind_def py_return_def lift_def call_def py_print_def

lemmas parser_defs = fromisoformat_rfc3339_def parse_date_def parse_hms_def parse_offset_def
  parse_digits_def is_ascii_digit_def digit_val_def days_in_month_def is_leap_def
  strftime_I_M_p_def pad2_def digit_char_def

lemmas token_defs = token_json_def json_string_def dq_def example_token_json_def
  expiry_free_token_json_def refreshed_token_json_def

lemmas event_defs = timed_event_def all_day_event_def timed_dated_event_def untitled_event_def
  created_event_def start_value_def start_field_def has_start_text_def start_text_def

lemma example_loader_valid_file: "example_loader example_token_json = Inr example_credentials"
  by (simp add: example_loader_def)

lemma expiry_free_token_json_distinct:
  "expiry_free_token_json \<noteq> example_token_json \<and> refreshed_token_json \<noteq> expiry_free_token_json"
  by (simp add: token_defs)

lemma example_loader_expiry_free_file:
  "example_loader expiry_free_token_json = Inr stale_credentials"
  by (simp add: example_loader_def expiry_free_token_json_distinct)

lemma example_loader_not_json: "example_loader ''not json'' = Inl json_decode_error"
  by (simp add: example_loader_def token_defs)

section \<open>The today loop as a filter\<close>

lemma startswith_iff_prefix: "startswith s p \<longleftrightarrow> prefix p s"
  by (induction s p rule: startswith.induct) auto

lemma record_loop_step:
  "today_loop record_event d (ev # events) c acc =
     (case starts_today d ev of
        Inl e \<Rightarrow> (Inl e, acc)
      | Inr True \<Rightarrow> today_loop record_event d events (c + 1) (acc @ [ev])
      | Inr False \<Rightarrow> today_loop record_event d events c acc)"
  by (simp add: record_event_def split: sum.splits bool.splits)

lemma record_loop_acc:
  "snd (today_loop record_event d events c acc) =
     acc @ snd (today_loop record_event d events 0 [])"
proof (induction events arbitrary: c acc)
  case Nil
  show ?case by simp
next
  case (Cons ev events)
  have here: "snd (today_loop record_event d events (c + 1) (acc @ [ev])) =
      (acc @ [ev]) @ snd (today_loop record_event d events 0 [])"
    by (rule Cons.IH)
  have start: "snd (today_loop record_event d events (0 + 1) ([] @ [ev])) =
      ([] @ [ev]) @ snd (today_loop record_event d events 0 [])"
    by (rule Cons.IH)
  have skip: "snd (today_loop record_event d events c acc) =
      acc @ snd (today_loop record_event d events 0 [])"
    by (rule Cons.IH)
  show ?case
    unfolding record_loop_step using here start skip
    by (simp split: sum.splits bool.splits)
qed

lemma today_filter_Nil: "today_filter d [] = []"
  by (simp add: today_filter_def)

lemma today_filter_Cons:
  "today_filter d (ev # events) =
     (case starts_today d ev of
        Inl e \<Rightarrow> []
      | Inr True \<Rightarrow> ev # today_filter d events
      | Inr False \<Rightarrow> today_filter d events)"
proof -
  have "snd (today_loop record_event d events (0 + 1) ([] @ [ev])) =
          ([] @ [ev]) @ snd (today_loop record_event d events 0 [])"
    by (rule record_loop_acc)
  then show ?thesis
    unfolding today_filter_def record_loop_step
    by (simp split: sum.splits bool.splits)
qed

lemma start_value_text:
  "has_start_text ev \<Longrightarrow> start_value ev = Inr (PStr (start_text ev))"
  by (auto simp: has_start_text_def start_text_def start_field_def start_value_def
      split: option.splits pyval.splits if_splits)

lemma has_start_text_iff: "has_start_text ev \<longleftrightarrow> (\<exists>t. start_value ev = Inr (PStr t))"
  by (auto simp: has_start_text_def start_field_def start_value_def
      split: option.splits pyval.splits if_splits)

lemma starts_today_text:
  "has_start_text ev \<Longrightarrow> starts_today d ev = Inr (prefix d (start_text ev))"
  by (simp add: start_value_text starts_today_def startswith_iff_prefix)

lemma today_loop_present_all:
  "list_all has_start_text events \<Longrightarrow>
     today_loop present d events c s = present_all present (today_filter d events) c s"
proof (induction events arbitrary: c s)
  case Nil
  show ?case by (simp add: today_filter_Nil)
next
  case (Cons ev events)
  then have st: "starts_today d ev = Inr (prefix d (start_text ev))"
    and rest: "list_all has_start_text events"
    by (simp_all add: starts_today_text)
  show ?case
  proof (cases "prefix d (start_text ev)")
    case True
    show ?thesis
    proof (cases "present ev s")
      case (Pair r s')
      then show ?thesis
        using st True Cons.IH [OF rest] by (cases r) (simp_all add: today_filter_Cons)
    qed
  next
    case False
    then show ?thesis using st Cons.IH [OF rest] by (simp add: today_filter_Cons)
  qed
qed

lemma today_filter_hits: "ev \<in> set (today_filter d events) \<Longrightarrow> starts_today d ev = Inr True"
  by (induction events) (auto simp: today_filter_Nil today_filter_Cons split: sum.splits bool.splits)

lemma today_filter_all_hits:
  "(\<And>ev. ev \<in> set events \<Longrightarrow> starts_today d ev = Inr True) \<Longrightarrow> today_filter d events = events"
  by (induction events) (simp_all add: today_filter_Nil today_filter_Cons)

lemma today_filter_subseq: "subseq (today_filter d events) events"
  by (induction events) (auto simp: today_filter_Nil today_filter_Cons split: sum.splits bool.splits)


lemma today_loop_none_selected:
  assumes "list_all has_start_text events" and "today_filter d events = []"
  shows "today_loop present d events c s = (Inr c, s)"
  using assms by (simp add: today_loop_present_all)

section \<open>The today filter\<close>

text \<open>
  C1. When every event carries a start string (its \<open>dateTime\<close> field if present, otherwise
  its \<open>date\<close> field), the events the today loop selects are exactly those whose start string
  begins with today's date string: the whole list is examined and input order is kept, and
  the loop does nothing but present these events one after the other. With starts
  \<open>2024-01-01T09:00:00\<close> and \<open>2024-01-02T10:00:00\<close> and today \<open>2024-01-01\<close>, exactly the first
  event is selected. An all-day event is selected by its \<open>date\<close>, and an event with both
  fields by its \<open>dateTime\<close> alone.
\<close>

theorem today_filter_selects:
  assumes "list_all has_start_text events"
  shows "today_filter d events = filter (\<lambda>ev. prefix d (start_text ev)) events \<and>
     today_loop present d events c s =
       present_all present (filter (\<lambda>ev. prefix d (start_text ev)) events) c s"
proof -
  have "today_filter d events = filter (\<lambda>ev. prefix d (start_text ev)) events"
    using assms
    by (induction events) (simp_all add: today_filter_Nil today_filter_Cons starts_today_text)
  with assms show ?thesis by (simp add: today_loop_present_all)
qed

theorem today_filter_selects_witness:
  "list_all has_start_text
     [timed_event ''Standup'' ''2024-01-01T09:00:00'',
      timed_event ''Review'' ''2024-01-02T10:00:00''] \<and>
   today_filter ''2024-01-01''
     [timed_event ''Standup'' ''2024-01-01T09:00:00'',
      timed_event ''Review'' ''2024-01-02T10:00:00''] =
     [timed_event ''Standup'' ''2024-01-01T09:00:00''] \<and>
   today_loop (\<lambda>e. print_event (example_world today_args []) e []) ''2024-01-01''
     [timed_event ''Standup'' ''2024-01-01T09:00:00'',
      timed_event ''Review'' ''2024-01-02T10:00:00''] 0 fresh_state =
     (Inr 1, \<lparr>token_file = None,
               trace = [Print (esc @ ''[96m[09:00 AM]'' @ esc @ ''[0m Standup'')]\<rparr>) \<and>
   list_all has_start_text
     [timed_dated_event ''Flight'' ''2024-01-02T06:00:00'' ''2024-01-01'',
      all_day_event ''Holiday'' ''2024-01-01'',
      all_day_event ''Trip'' ''2024-01-02'',
      timed_dated_event ''Dinner'' ''2024-01-01T19:00:00'' ''2024-01-02''] \<and>
   today_filter ''2024-01-01''
     [timed_dated_event ''Flight'' ''2024-01-02T06:00:00'' ''2024-01-01'',
      all_day_event ''Holiday'' ''2024-01-01'',
      all_day_event ''Trip'' ''2024-01-02'',
      timed_dated_event ''Dinner'' ''2024-01-01T19:00:00'' ''2024-01-02''] =
     [all_day_event ''Holiday'' ''2024-01-01'',
      timed_dated_event ''Dinner'' ''2024-01-01T19:00:00'' ''2024-01-02'']"
  using today_filter_selects
    [of "[timed_event ''Standup'' ''2024-01-01T09:00:00'',
          timed_event ''Review'' ''2024-01-02T10:00:00'']" "''2024-01-01''"
        "\<lambda>e. print_event (example_world today_args []) e []" 0 fresh_state]
    today_filter_selects
    [of "[timed_dated_event ''Flight'' ''2024-01-02T06:00:00'' ''2024-01-01'',
          all_day_event ''Holiday'' ''2024-01-01'',
          all_day_event ''Trip'' ''2024-01-02'',
          timed_dated_event ''Dinner'' ''2024-01-01T19:00:00'' ''2024-01-02'']" "''2024-01-01''"
        record_event 0 "[]"]
  by (simp add: print_event_def time_str_def example_world_def event_defs prog_defs parser_defs
      fresh_state_def del: today_loop.simps)

text \<open>
  C10. For every event list and date string, the events the today loop selects form a
  subsequence of the input, in input order, and selecting again from the selection with the
  same date string changes nothing.
\<close>

theorem today_filter_subseq_idempotent:
  "subseq (today_filter d events) events \<and>
   today_filter d (today_filter d events) = today_filter d events"
  by (simp add: today_filter_subseq today_filter_all_hits today_filter_hits)

theorem today_filter_subseq_idempotent_witness:
  "subseq
     (today_filter ''2024-01-01''
        [all_day_event ''Holiday'' ''2024-01-01'', timed_event ''Review'' ''2024-01-02T10:00:00'',
         timed_event ''Standup'' ''2024-01-01T09:00:00''])
     [all_day_event ''Holiday'' ''2024-01-01'', timed_event ''Review'' ''2024-01-02T10:00:00'',
      timed_event ''Standup'' ''2024-01-01T09:00:00''] \<and>
   today_filter ''2024-01-01''
     (today_filter ''2024-01-01''
        [all_day_event ''Holiday'' ''2024-01-01'', timed_event ''Review'' ''2024-01-02T10:00:00'',
         timed_event ''Standup'' ''2024-01-01T09:00:00'']) =
     [all_day_event ''Holiday'' ''2024-01-01'', timed_event ''Standup'' ''2024-01-01T09:00:00'']"
  using today_filter_subseq_idempotent
    [of "''2024-01-01''"
        "[all_day_event ''Holiday'' ''2024-01-01'', timed_event ''Review'' ''2024-01-02T10:00:00'',
          timed_event ''Standup'' ''2024-01-01T09:00:00'']"]
  by (simp add: today_filter_Nil today_filter_Cons starts_today_def event_defs)

section \<open>The presenter\<close>

text \<open>
  C2. \<open>print_event\<close> shows a 12-hour clock time when the start value parses and \<open>All Day\<close>
  when parsing raises \<open>ValueError\<close>. For the all-day start \<open>2024-01-01\<close> the parse does not
  fail: \<open>fromisoformat\<close> reads a date alone as midnight, and the line shows \<open>12:00 AM\<close> where
  \<open>All Day\<close> was meant.
\<close>

theorem print_event_all_day_shows_midnight:
  "print_event (example_world args evs) (all_day_event ''Holiday'' ''2024-01-01'') [] s =
     (Inr (), s\<lparr>trace := trace s @ [Print (esc @ ''[96m[12:00 AM]'' @ esc @ ''[0m Holiday'')]\<rparr>)"
  by (simp add: print_event_def time_str_def example_world_def event_defs prog_defs parser_defs)

lemma print_event_timed_shows_clock:
  "print_event (example_world args evs) (timed_event ''Review'' ''2024-01-01T14:30:00'') [] s =
     (Inr (), s\<lparr>trace := trace s @ [Print (esc @ ''[96m[02:30 PM]'' @ esc @ ''[0m Review'')]\<rparr>)"
  by (simp add: print_event_def time_str_def example_world_def event_defs prog_defs parser_defs)

lemma time_str_cases:
  "time_str w (PStr t) =
     Inr (case fromisoformat w t of Some dt \<Rightarrow> strftime_I_M_p dt | None \<Rightarrow> ''All Day'')"
  by (simp add: time_str_def split: option.splits)

lemma strftime_I_M_p_length: "length (strftime_I_M_p dt) = 8"
  by (simp add: strftime_I_M_p_def pad2_def)

lemma time_str_parsed_not_all_day:
  assumes "fromisoformat w t = Some dt"
  shows "time_str w (PStr t) \<noteq> Inr ''All Day''"
proof
  assume "time_str w (PStr t) = Inr ''All Day''"
  with assms have "strftime_I_M_p dt = ''All Day''"
    by (simp add: time_str_def)
  then have "length (strftime_I_M_p dt) = length ''All Day''"
    by (rule arg_cong)
  then show False
    by (simp add: strftime_I_M_p_length)
qed

text \<open>
  C5. \<open>print_event\<close> is meant to raise nothing for a malformed event. For an event without a
  \<open>summary\<close> key, which \<open>cmd_add\<close> reads with \<open>get\<close>, line 102 raises \<open>KeyError\<close> and nothing is
  printed.
\<close>

theorem print_event_untitled_raises:
  "print_event w (untitled_event ''2024-01-01T09:00:00'') pfx s = (Inl (key_error ''summary''), s)"
  by (simp add: print_event_def event_defs prog_defs)

lemma print_event_no_start_value_raises:
  "print_event w \<lparr>summary = Some (PStr title), start = Some \<lparr>dateTime = None, date = None\<rparr>,
       htmlLink = None\<rparr> pfx s =
     (Inl (Exception TypeError ''fromisoformat: argument must be str''), s)"
  by (simp add: print_event_def time_str_def event_defs prog_defs)

section \<open>The today command\<close>

text \<open>
  C7, as amended. When the list call returns events that all carry a start string and none of
  them is selected for today's date string, the today command prints its two header lines
  and then one message: \<open>Nothing left for today!\<close> (followed by the party emoji) for a
  non-empty list, \<open>No events found.\<close> for an empty one.
\<close>

theorem cmd_today_nothing_selected:
  assumes "events_list svc (list_today_request w) = Inr r"
    and "list_all has_start_text (get_items r)"
    and "today_filter (today_line87 w) (get_items r) = []"
  shows "cmd_today w svc args s =
     (Inr (), s\<lparr>trace := trace s @
        [Print (calendar_sign @ '' Agenda for Today ('' @ today_line74 w @ ''):''),
         Print (replicate 40 CHR ''-''),
         ListRequest (list_today_request w),
         Print (if get_items r = [] then ''No events found.''
                else ''Nothing left for today! '' @ party_popper)]\<rparr>)"
proof (cases "get_items r")
  case Nil
  with assms(1) show ?thesis by (simp add: cmd_today_def prog_defs)
next
  case (Cons ev rest)
  have "today_loop (\<lambda>e. print_event w e []) (today_line87 w) (ev # rest) 0
          (s\<lparr>trace := trace s @
             [Print (calendar_sign @ '' Agenda for Today ('' @ today_line74 w @ ''):''),
              Print (replicate 40 CHR ''-''), ListRequest (list_today_request w)]\<rparr>) =
        (Inr 0, s\<lparr>trace := trace s @
             [Print (calendar_sign @ '' Agenda for Today ('' @ today_line74 w @ ''):''),
              Print (replicate 40 CHR ''-''), ListRequest (list_today_request w)]\<rparr>)"
    using assms(2,3) unfolding Cons by (rule today_loop_none_selected)
  with assms(1) Cons show ?thesis
    by (simp add: cmd_today_def prog_defs del: today_loop.simps)
qed

theorem cmd_today_nothing_selected_witness:
  "cmd_today (example_world today_args [timed_event ''Review'' ''2024-01-02T10:00:00''])
     (example_service [timed_event ''Review'' ''2024-01-02T10:00:00'']) today_args fresh_state =
     (Inr (), \<lparr>token_file = None, trace =
        [Print (calendar_sign @ '' Agenda for Today (2024-01-01):''),
         Print ''----------------------------------------'',
         ListRequest \<lparr>calendarId = ''primary'', timeMin = ''2024-01-01T08:00:00.000001Z'',
           maxResults = 20, singleEvents = True, orderBy = ''startTime''\<rparr>,
         Print (''Nothing left for today! '' @ party_popper)]\<rparr>)"
  using cmd_today_nothing_selected
    [of "example_service [timed_event ''Review'' ''2024-01-02T10:00:00'']"
        "example_world today_args [timed_event ''Review'' ''2024-01-02T10:00:00'']"
        "\<lparr>items = Some [timed_event ''Review'' ''2024-01-02T10:00:00'']\<rparr>"
        today_args fresh_state]
  by (simp add: example_service_def example_world_def list_today_request_def get_items_def
      today_filter_Nil today_filter_Cons starts_today_def event_defs fresh_state_def
      numeral_eq_Suc)

text \<open>
  The claim as stated fails for the empty list: no event matches, yet line 83 answers
  \<open>No events found.\<close> and returns before the loop.
\<close>

theorem cmd_today_empty_list_counterexample:
  "today_filter ''2024-01-01'' [] = [] \<and>
   cmd_today (example_world today_args []) (example_service []) today_args fresh_state =
     (Inr (), \<lparr>token_file = None, trace =
        [Print (calendar_sign @ '' Agenda for Today (2024-01-01):''),
         Print ''----------------------------------------'',
         ListRequest \<lparr>calendarId = ''primary'', timeMin = ''2024-01-01T08:00:00.000001Z'',
           maxResults = 20, singleEvents = True, orderBy = ''startTime''\<rparr>,
         Print ''No events found.'']\<rparr>)"
  by (simp add: cmd_today_def prog_defs example_service_def example_world_def
      list_today_request_def get_items_def today_filter_Nil fresh_state_def numeral_eq_Suc)

section \<open>The next command\<close>

text \<open>
  C8. If the list call for \<open>next\<close> returns no events, \<open>cmd_next\<close> prints
  \<open>No upcoming events found.\<close> and does nothing else; otherwise it does exactly what
  \<open>print_event\<close> does on the first event, with the \<open>NEXT\<close> prefix.
\<close>

theorem cmd_next_first_or_none:
  assumes "events_list svc (list_next_request w) = Inr r"
  shows "cmd_next w svc args s =
     (case get_items r of
        [] \<Rightarrow> (Inr (), s\<lparr>trace := trace s @
                 [ListRequest (list_next_request w), Print ''No upcoming events found.'']\<rparr>)
      | ev # rest \<Rightarrow>
          print_event w ev (next_track @ ''  NEXT: '')
            (s\<lparr>trace := trace s @ [ListRequest (list_next_request w)]\<rparr>))"
  using assms by (simp add: cmd_next_def prog_defs split: list.splits)

theorem cmd_next_first_or_none_witness:
  "events_list
     (example_service [timed_event ''Review'' ''2024-01-01T14:30:00'',
                       timed_event ''Dinner'' ''2024-01-01T19:00:00''])
     (list_next_request (example_world next_args [])) =
     Inr \<lparr>items = Some [timed_event ''Review'' ''2024-01-01T14:30:00'',
                        timed_event ''Dinner'' ''2024-01-01T19:00:00'']\<rparr> \<and>
   cmd_next (example_world next_args [])
     (example_service [timed_event ''Review'' ''2024-01-01T14:30:00'',
                       timed_event ''Dinner'' ''2024-01-01T19:00:00'']) next_args fresh_state =
     (Inr (), \<lparr>token_file = None, trace =
        [ListRequest \<lparr>calendarId = ''primary'', timeMin = ''2024-01-01T08:00:00.000001+00:00'',
           maxResults = 1, singleEvents = True, orderBy = ''startTime''\<rparr>,
         Print (next_track @ ''  NEXT: '' @ esc @ ''[96m[02:30 PM]'' @ esc @ ''[0m Review'')]\<rparr>)"
  using cmd_next_first_or_none
    [of "example_service [timed_event ''Review'' ''2024-01-01T14:30:00'',
                          timed_event ''Dinner'' ''2024-01-01T19:00:00'']"
        "example_world next_args []"
        "\<lparr>items = Some [timed_event ''Review'' ''2024-01-01T14:30:00'',
                         timed_event ''Dinner'' ''2024-01-01T19:00:00'']\<rparr>"
        next_args fresh_state]
  by (simp add: example_service_def example_world_def list_next_request_def get_items_def
      print_event_def time_str_def event_defs prog_defs parser_defs fresh_state_def)

lemma cmd_next_empty_example:
  "cmd_next (example_world next_args []) (example_service []) next_args fresh_state =
     (Inr (), \<lparr>token_file = None, trace =
        [ListRequest \<lparr>calendarId = ''primary'', timeMin = ''2024-01-01T08:00:00.000001+00:00'',
           maxResults = 1, singleEvents = True, orderBy = ''startTime''\<rparr>,
         Print ''No upcoming events found.'']\<rparr>)"
  by (simp add: cmd_next_def example_service_def example_world_def list_next_request_def
      get_items_def prog_defs fresh_state_def)

section \<open>The add command\<close>

text \<open>
  C9. For one or more text tokens, \<open>cmd_add\<close> sends to quick-add on the primary calendar the
  first token followed by every further token after one space, and prints the summary and
  the link of the returned event as they are. The tokens \<open>Dinner\<close>, \<open>at\<close>, \<open>7pm\<close> are sent as
  \<open>Dinner at 7pm\<close>, and so is the single token \<open>Dinner at 7pm\<close>.
\<close>

lemma py_join_single_spaces: "py_join '' '' tokens = joined_by_single_spaces tokens"
  by (induction "'' ''" tokens rule: py_join.induct) (simp_all add: joined_by_single_spaces_def)

theorem cmd_add_sends_joined_text:
  assumes "text_arg args = tokens" and "tokens \<noteq> []"
    and "quickAdd svc ''primary'' (joined_by_single_spaces tokens) = Inr ev"
    and "summary ev = Some (PStr title)" and "htmlLink ev = Some (PStr link)"
  shows "cmd_add svc args s =
     (Inr (), s\<lparr>trace := trace s @
        [Print (''Adding: '' @ sq @ joined_by_single_spaces tokens @ sq @ ''...''),
         QuickAddRequest ''primary'' (joined_by_single_spaces tokens),
         Print (check_mark @ '' Created event: '' @ title),
         Print (''   Link: '' @ link)]\<rparr>)"
  using assms by (simp add: cmd_add_def prog_defs Let_def py_join_single_spaces)

theorem cmd_add_sends_joined_text_witness:
  "text_arg (add_args [''Dinner'', ''at'', ''7pm'']) = [''Dinner'', ''at'', ''7pm''] \<and>
   quickAdd (example_service []) ''primary'' ''Dinner at 7pm'' =
     Inr (created_event ''Dinner at 7pm'') \<and>
   cmd_add (example_service []) (add_args [''Dinner'', ''at'', ''7pm'']) fresh_state =
     (Inr (), \<lparr>token_file = None, trace =
        [Print (''Adding: '' @ sq @ ''Dinner at 7pm'' @ sq @ ''...''),
         QuickAddRequest ''primary'' ''Dinner at 7pm'',
         Print (check_mark @ '' Created event: Dinner at 7pm''),
         Print ''   Link: https://www.google.com/calendar/event?eid=abc'']\<rparr>) \<and>
   cmd_add (example_service []) (add_args [''Dinner at 7pm'']) fresh_state =
     (Inr (), \<lparr>token_file = None, trace =
        [Print (''Adding: '' @ sq @ ''Dinner at 7pm'' @ sq @ ''...''),
         QuickAddRequest ''primary'' ''Dinner at 7pm'',
         Print (check_mark @ '' Created event: Dinner at 7pm''),
         Print ''   Link: https://www.google.com/calendar/event?eid=abc'']\<rparr>)"
  using cmd_add_sends_joined_text
    [of "add_args [''Dinner'', ''at'', ''7pm'']" "[''Dinner'', ''at'', ''7pm'']"
        "example_service []" "created_event ''Dinner at 7pm''" "''Dinner at 7pm''"
        "''https://www.google.com/calendar/event?eid=abc''" fresh_state]
    cmd_add_sends_joined_text
    [of "add_args [''Dinner at 7pm'']" "[''Dinner at 7pm'']" "example_service []"
        "created_event ''Dinner at 7pm''" "''Dinner at 7pm''"
        "''https://www.google.com/calendar/event?eid=abc''" fresh_state]
  by (simp add: add_args_def example_service_def created_event_def fresh_state_def
      joined_by_single_spaces_def)

lemma py_join_words_example: "py_join '' '' [''Dinner'', ''at'', ''7pm''] = ''Dinner at 7pm''"
  by simp

section \<open>Acquiring credentials\<close>

text \<open>
  C6, as amended. When the token file exists and the credentials loaded from it are valid
  (\<open>creds.valid\<close>: they hold an access token and it is not expired), \<open>get_service\<close> reads the
  file once, builds the service from those credentials and does nothing else: no refresh,
  no interactive flow, no write, and the file is unchanged. Its result is that of \<open>build\<close>.
\<close>

theorem get_service_valid_token:
  assumes "token_file s = Some content"
    and "from_authorized_user_file w content = Inr c"
    and "valid c"
  shows "get_service w s = (build w c, s\<lparr>trace := trace s @ [TokenRead, Build]\<rparr>)"
  using assms by (simp add: get_service_def prog_defs)

theorem get_service_valid_token_witness:
  "token_file (stored_token_state example_token_json) = Some example_token_json \<and>
   from_authorized_user_file (example_world today_args []) example_token_json =
     Inr example_credentials \<and>
   valid example_credentials \<and>
   get_service (example_world today_args []) (stored_token_state example_token_json) =
     (Inr (example_service []),
      \<lparr>token_file = Some example_token_json, trace = [TokenRead, Build]\<rparr>)"
  using get_service_valid_token
    [of "stored_token_state example_token_json" example_token_json
        "example_world today_args []" example_credentials]
  by (simp add: stored_token_state_def example_world_def example_loader_valid_file
      example_credentials_def valid_def)

text \<open>
  The claim as stated fails for a token file that carries no expiry: the library loads it
  as expired, so \<open>get_service\<close> refreshes the credentials and writes the token file, whose
  contents change.
\<close>

theorem get_service_expiry_free_counterexample:
  "get_service (example_world today_args []) (stored_token_state expiry_free_token_json) =
     (Inr (example_service []),
      \<lparr>token_file = Some refreshed_token_json,
       trace = [TokenRead, TokenRefresh, TokenWrite refreshed_token_json, Build]\<rparr>) \<and>
   refreshed_token_json \<noteq> expiry_free_token_json"
  by (simp add: get_service_def write_token_def prog_defs stored_token_state_def
      example_world_def example_loader_expiry_free_file stale_credentials_def
      refreshed_credentials_def valid_def expiry_free_token_json_distinct)

text \<open>
  Nor is a file that is not expired enough: credentials loaded without an access token are
  not valid, and when they are not expired either the interactive flow runs and its result
  is written.
\<close>

lemma get_service_without_access_token:
  assumes "token_file s = Some content"
    and "from_authorized_user_file w content = Inr c"
    and "token c = PNone" and "\<not> expired c"
    and "from_client_secrets_file w = None" and "run_local_server w = Inr c'"
    and "open_token_w w = None"
  shows "get_service w s =
     (build w c', s\<lparr>token_file := Some (to_json c'),
        trace := trace s @
          [TokenRead, ClientSecretsRead, LocalServerFlow, TokenWrite (to_json c'), Build]\<rparr>)"
  using assms
  by (simp add: get_service_def interactive_flow_def write_token_def prog_defs valid_def)

lemma get_service_expired_refreshes:
  assumes "token_file s = Some content"
    and "from_authorized_user_file w content = Inr c"
    and "expired c" and "truthy (refresh_token c)"
    and "refresh w c = Inr c'" and "open_token_w w = None"
  shows "get_service w s =
     (build w c', s\<lparr>token_file := Some (to_json c'),
        trace := trace s @ [TokenRead, TokenRefresh, TokenWrite (to_json c'), Build]\<rparr>)"
  using assms by (simp add: get_service_def write_token_def prog_defs valid_def)

text \<open>
  C3, as amended. When the token file exists but \<open>Credentials.from_authorized_user_file\<close>
  raises on its contents, \<open>get_service\<close> raises that exception after the one read: it starts
  no interactive flow and leaves the file as it is. \<open>main\<close> catches the exception when it is
  an \<open>Exception\<close>, prints \<open>Error:\<close> and its message, and returns normally.
\<close>

theorem get_service_corrupt_token:
  assumes "token_file s = Some content"
    and "from_authorized_user_file w content = Inl e"
    and "parse_args w = Inr args"
  shows "get_service w s = (Inl e, s\<lparr>trace := trace s @ [TokenRead]\<rparr>) \<and>
     main w s =
       (case e of
          Exception cls msg \<Rightarrow>
            (Inr (), s\<lparr>trace := trace s @ [TokenRead, Print (''Error: '' @ msg)]\<rparr>)
        | _ \<Rightarrow> (Inl e, s\<lparr>trace := trace s @ [TokenRead]\<rparr>))"
  using assms by (simp add: get_service_def main_def main_try_def prog_defs split: exn.splits)

theorem get_service_corrupt_token_witness:
  "from_authorized_user_file corrupt_token_world ''not json'' = Inl json_decode_error \<and>
   parse_args corrupt_token_world = Inr today_args \<and>
   get_service corrupt_token_world (stored_token_state ''not json'') =
     (Inl json_decode_error, \<lparr>token_file = Some ''not json'', trace = [TokenRead]\<rparr>) \<and>
   main corrupt_token_world (stored_token_state ''not json'') =
     (Inr (), \<lparr>token_file = Some ''not json'', trace =
        [TokenRead, Print ''Error: Expecting value: line 1 column 1 (char 0)'']\<rparr>)"
  using get_service_corrupt_token
    [of "stored_token_state ''not json''" "''not json''" corrupt_token_world json_decode_error
        today_args]
  by (simp add: corrupt_token_world_def example_world_def example_loader_not_json
      today_args_def stored_token_state_def json_decode_error_def)

text \<open>
  The claim as stated fails: a token file that holds \<open>not json\<close> is not treated as absent,
  \<open>get_service\<close> raises and the interactive flow never runs.
\<close>

theorem get_service_corrupt_token_counterexample:
  "get_service corrupt_token_world (stored_token_state ''not json'') =
     (Inl json_decode_error, \<lparr>token_file = Some ''not json'', trace = [TokenRead]\<rparr>)"
  by (simp add: get_service_def prog_defs corrupt_token_world_def example_world_def
      example_loader_not_json stored_token_state_def)

section \<open>Dispatch\<close>

text \<open>
  C4, as amended. Once the arguments are parsed, every exception that derives from
  \<open>Exception\<close> and is raised while acquiring credentials, calling the API or presenting is
  caught by \<open>main\<close>, which prints \<open>Error:\<close> followed by the message and returns normally,
  whatever the failure was.
\<close>

theorem main_catches_exception:
  assumes "parse_args w = Inr args"
    and "main_try w args s = (Inl (Exception cls msg), s')"
  shows "main w s = (Inr (), s'\<lparr>trace := trace s' @ [Print (''Error: '' @ msg)]\<rparr>)"
  using assms by (simp add: main_def prog_defs)

theorem main_catches_exception_witness:
  "parse_args (example_world today_args [untitled_event ''2024-01-01T09:00:00'']) =
     Inr today_args \<and>
   main (example_world today_args [untitled_event ''2024-01-01T09:00:00'']) fresh_state =
     (Inr (), \<lparr>token_file = Some example_token_json, trace =
        [ClientSecretsRead, LocalServerFlow, TokenWrite example_token_json, Build,
         Print (calendar_sign @ '' Agenda for Today (2024-01-01):''),
         Print ''----------------------------------------'',
         ListRequest \<lparr>calendarId = ''primary'', timeMin = ''2024-01-01T08:00:00.000001Z'',
           maxResults = 20, singleEvents = True, orderBy = ''startTime''\<rparr>,
         Print (''Error: '' @ sq @ ''summary'' @ sq)]\<rparr>)"
  using main_catches_exception
    [of "example_world today_args [untitled_event ''2024-01-01T09:00:00'']" today_args
        fresh_state KeyError "sq @ ''summary'' @ sq"
        "\<lparr>token_file = Some example_token_json, trace =
        [ClientSecretsRead, LocalServerFlow, TokenWrite example_token_json, Build,
         Print (calendar_sign @ '' Agenda for Today (2024-01-01):''),
         Print ''----------------------------------------'',
         ListRequest \<lparr>calendarId = ''primary'', timeMin = ''2024-01-01T08:00:00.000001Z'',
           maxResults = 20, singleEvents = True, orderBy = ''startTime''\<rparr>]\<rparr>"]
  by (simp add: main_try_def get_service_def interactive_flow_def write_token_def cmd_today_def
      print_event_def starts_today_def key_error_def today_args_def
      example_world_def example_service_def example_credentials_def list_today_request_def
      get_items_def event_defs prog_defs fresh_state_def numeral_eq_Suc)

text \<open>
  The claim as stated fails for argument parsing, which runs before the \<open>try\<close>: the
  \<open>SystemExit(2)\<close> that \<open>argparse\<close> raises for a missing subcommand leaves \<open>main\<close> uncaught, and
  no \<open>Error:\<close> line is printed.
\<close>

theorem main_usage_error_counterexample:
  "main usage_error_world fresh_state = (Inl (SystemExit 2), fresh_state)"
  by (simp add: main_def usage_error_world_def)

lemma main_propagates_interrupt:
  assumes "parse_args w = Inr args" and "main_try w args s = (Inl KeyboardInterrupt, s')"
  shows "main w s = (Inl KeyboardInterrupt, s')"
  using assms by (simp add: main_def)

end
